theory Spec2Isabelle
  imports Main "HOL-Library.Sublist"
begin

section \<open>Data model\<close>

text \<open>
  The handlers of \<^verbatim>\<open>app/__init__.py\<close> work on five tables through an object-relational
  mapper: users, catalog items, cart rows, orders and the line items of orders.
\<close>

text \<open>
  Modelled from the spec: the row types \<open>User\<close>, \<open>Item\<close>, \<open>Cart\<close>, \<open>Order\<close> and
  \<open>Ordered_item\<close>, whose column declarations live in \<^verbatim>\<open>app/db_models.py\<close>, which is
  not among the sources. The records follow section 3 of the specification and carry
  exactly the columns the handlers read or write, under the attribute names the
  handlers use. Primary keys are natural numbers, quantities and prices are exact
  integers, and a point in time is a number of seconds.
\<close>

record User =
  user_id :: nat
  user_name :: string
  user_email :: string
  user_password :: string
  user_phone :: string
  user_email_confirmed :: bool

record Item =
  item_id :: nat
  item_name :: string
  item_price :: int
  item_price_id :: string

record Cart =
  cart_id :: nat
  cart_uid :: nat
  cart_itemid :: nat
  cart_quantity :: int

record Order =
  order_id :: nat
  order_uid :: nat
  order_date :: int
  order_status :: string

record Ordered_item =
  ordered_oid :: nat
  ordered_itemid :: nat
  ordered_quantity :: int

text \<open>The persistent store: one list of rows per table, in insertion order.\<close>

record db =
  users :: "User list"
  items :: "Item list"
  carts :: "Cart list"
  orders :: "Order list"
  ordered_items :: "Ordered_item list"

text \<open>
  \<open>db.session\<close> is a unit of work: \<open>add\<close> and \<open>delete\<close> change the pending state only,
  \<open>commit\<close> makes the pending state the persistent one, \<open>rollback\<close> throws the pending
  changes away. When a request ends, only the committed state remains.
\<close>

record session =
  committed :: db
  pending :: db

definition begin_session :: "db \<Rightarrow> session" where
  "begin_session d = \<lparr>committed = d, pending = d\<rparr>"

definition session_commit :: "session \<Rightarrow> session" where
  "session_commit s = s\<lparr>committed := pending s\<rparr>"

definition session_rollback :: "session \<Rightarrow> session" where
  "session_rollback s = s\<lparr>pending := committed s\<rparr>"

definition session_add_order :: "Order \<Rightarrow> session \<Rightarrow> session" where
  "session_add_order o' s = s\<lparr>pending := (pending s)\<lparr>orders := orders (pending s) @ [o']\<rparr>\<rparr>"

definition session_add_ordered_item :: "Ordered_item \<Rightarrow> session \<Rightarrow> session" where
  "session_add_ordered_item oi s =
     s\<lparr>pending := (pending s)\<lparr>ordered_items := ordered_items (pending s) @ [oi]\<rparr>\<rparr>"

text \<open>\<open>db.session.delete(row)\<close> removes the row with that primary key.\<close>

definition session_delete_cart :: "Cart \<Rightarrow> session \<Rightarrow> session" where
  "session_delete_cart c s =
     s\<lparr>pending := (pending s)\<lparr>carts := filter (\<lambda>r. cart_id r \<noteq> cart_id c) (carts (pending s))\<rparr>\<rparr>"

text \<open>The store numbers a new order one above the largest key in the table.\<close>

definition next_order_id :: "db \<Rightarrow> nat" where
  "next_order_id d = Suc (fold max (map order_id (orders d)) 0)"

section \<open>Requests and responses\<close>

text \<open>
  What a handler reads from the framework's ambient state is passed in explicitly: the
  user id kept in the login cookie and the clock. What it does besides changing the
  store is returned: the flashed messages with their categories, the login state after
  the request, and the reply (a redirect, a rendered page, or an exception that no
  handler caught).
\<close>

record request =
  session_uid :: "nat option"
  now :: int

datatype exn = TypeError | AttributeError | UnmappedInstanceError | OperationalError

text \<open>The variables a handler passes to \<open>render_template\<close>.\<close>

datatype page_vars =
    NoContext
  | FormPage
  | SearchPage "Item list" string
  | CartPage "Item list" int "(string \<times> int) list" "int list"
  | OrdersPage "Order list"

datatype reply =
    Redirect string
  | Render string page_vars
  | Unauthorized
  | BadRequest
  | Unhandled exn

record result =
  db_after :: db
  login_after :: "nat option"
  flashed :: "(string \<times> string) list"
  reply :: reply

text \<open>\<open>load_user\<close> is \<open>User.query.get(user_id)\<close>: the row with that key, if any.\<close>

definition load_user :: "db \<Rightarrow> nat \<Rightarrow> User option" where
  "load_user d i = find (\<lambda>u. user_id u = i) (users d)"

definition current_user :: "request \<Rightarrow> db \<Rightarrow> User option" where
  "current_user rq d = (case session_uid rq of None \<Rightarrow> None | Some i \<Rightarrow> load_user d i)"

text \<open>The routes registered with \<open>@app.route\<close>, as \<open>url_for\<close> resolves them.\<close>

definition url_for :: "string \<Rightarrow> string" where
  "url_for name = CHR ''/'' # (if name = ''home'' then [] else name)"

text \<open>\<open>@login_required\<close>: an anonymous caller never reaches the view.\<close>

definition login_required :: "(User \<Rightarrow> request \<Rightarrow> db \<Rightarrow> result) \<Rightarrow> request \<Rightarrow> db \<Rightarrow> result" where
  "login_required view rq d =
     (case current_user rq d of
        None \<Rightarrow> \<lparr>db_after = d, login_after = session_uid rq, flashed = [], reply = Unauthorized\<rparr>
      | Some u \<Rightarrow> view u rq d)"

text \<open>The relationship \<open>user.cart\<close>: the cart rows of that user.\<close>

definition user_cart :: "User \<Rightarrow> db \<Rightarrow> Cart list" where
  "user_cart u d = filter (\<lambda>c. cart_uid c = user_id u) (carts d)"

section \<open>Order placement\<close>

text \<open>
  The store can fail. Which of its calls inside the \<open>try\<close> block raises, and with
  which message, is a parameter of the model: \<open>raises step = Some msg\<close> means that
  this call raises an exception whose text is \<open>msg\<close>. The steps are the first commit
  (of the new order), the \<open>add\<close> and the \<open>delete\<close> of the \<open>k\<close>-th loop iteration, and the
  final commit.
\<close>

datatype step = CommitOrder | AddOrderedItem nat | DeleteCartEntry nat | CommitTransfer

type_synonym attempt = "(string \<times> session) + session"

fun transfer :: "(step \<Rightarrow> string option) \<Rightarrow> nat \<Rightarrow> nat \<Rightarrow> Cart list \<Rightarrow> session \<Rightarrow> attempt" where
  "transfer raises oid k [] s = Inr s"
| "transfer raises oid k (cart_item # rest) s =
     (case raises (AddOrderedItem k) of
        Some e \<Rightarrow> Inl (e, s)
      | None \<Rightarrow>
          (let ordered_item = \<lparr>ordered_oid = oid, ordered_itemid = cart_itemid cart_item,
                                ordered_quantity = cart_quantity cart_item\<rparr>;
               s1 = session_add_ordered_item ordered_item s
           in case raises (DeleteCartEntry k) of
                Some e \<Rightarrow> Inl (e, s1)
              | None \<Rightarrow> transfer raises oid (Suc k) rest (session_delete_cart cart_item s1)))"

definition try_place_order :: "(step \<Rightarrow> string option) \<Rightarrow> User \<Rightarrow> request \<Rightarrow> session \<Rightarrow> attempt" where
  "try_place_order raises u rq s =
     (let new_order = \<lparr>order_id = next_order_id (pending s), order_uid = user_id u,
                        order_date = now rq, order_status = ''Pending''\<rparr>;
          s1 = session_add_order new_order s
      in case raises CommitOrder of
           Some e \<Rightarrow> Inl (e, s1)
         | None \<Rightarrow>
             (let s2 = session_commit s1
              in case transfer raises (order_id new_order) 0 (user_cart u (pending s2)) s2 of
                   Inl x \<Rightarrow> Inl x
                 | Inr s3 \<Rightarrow>
                     (case raises CommitTransfer of
                        Some e \<Rightarrow> Inl (e, s3)
                      | None \<Rightarrow> Inr (session_commit s3))))"

definition place_order_view :: "(step \<Rightarrow> string option) \<Rightarrow> User \<Rightarrow> request \<Rightarrow> db \<Rightarrow> result" where
  "place_order_view raises u rq d =
     (if user_cart u d = [] then
        \<lparr>db_after = d, login_after = session_uid rq,
         flashed = [(''Your cart is empty. Please add items to your cart before placing an order.'',
                     ''error'')],
         reply = Redirect (url_for ''cart'')\<rparr>
      else
        (case try_place_order raises u rq (begin_session d) of
           Inr s \<Rightarrow>
             \<lparr>db_after = committed s, login_after = session_uid rq,
              flashed = [(''Order placed successfully! Cash on Delivery selected.'', ''success'')],
              reply = Redirect (url_for ''orders'')\<rparr>
         | Inl (e, s) \<Rightarrow>
             \<lparr>db_after = committed (session_rollback s), login_after = session_uid rq,
              flashed = [(''An error occurred while placing the order: '' @ e, ''error'')],
              reply = Redirect (url_for ''cart'')\<rparr>))"

definition place_order :: "(step \<Rightarrow> string option) \<Rightarrow> request \<Rightarrow> db \<Rightarrow> result" where
  "place_order raises = login_required (place_order_view raises)"

section \<open>Identity and session\<close>

text \<open>
  \<open>form.validate_on_submit()\<close> is true for a POST whose fields pass the validators of
  \<^verbatim>\<open>app/forms.py\<close> (not among the sources). The handlers only see whether it passed
  and, if so, the field values: a form is \<open>Some\<close> of its data when it validated and
  \<open>None\<close> otherwise (a GET, or a rejected submission).
\<close>

record LoginForm =
  login_email :: string
  login_password :: string

record RegisterForm =
  register_name :: string
  register_email :: string
  register_password :: string
  register_phone :: string

text \<open>\<open>User.query.filter_by(email=email).first()\<close>\<close>

definition first_by_email :: "db \<Rightarrow> string \<Rightarrow> User option" where
  "first_by_email d email = find (\<lambda>u. user_email u = email) (users d)"

text \<open>
  The password hasher is the library's: \<open>check_password_hash\<close> and
  \<open>generate_password_hash\<close> are parameters. \<open>login_user(user)\<close> stores the key of the
  user in the login cookie.
\<close>

definition login ::
  "(string \<Rightarrow> string \<Rightarrow> bool) \<Rightarrow> LoginForm option \<Rightarrow> request \<Rightarrow> db \<Rightarrow> result" where
  "login check_password_hash form rq d =
     (if current_user rq d \<noteq> None then
        \<lparr>db_after = d, login_after = session_uid rq, flashed = [],
         reply = Redirect (url_for ''home'')\<rparr>
      else case form of
        None \<Rightarrow>
          \<lparr>db_after = d, login_after = session_uid rq, flashed = [],
           reply = Render ''login.html'' FormPage\<rparr>
      | Some f \<Rightarrow>
          (let email = login_email f
           in case first_by_email d email of
                None \<Rightarrow>
                  \<lparr>db_after = d, login_after = session_uid rq,
                   flashed = [(''User with email '' @ email @ '' doesn't exist!<br> <a href=''
                                 @ url_for ''register'' @ ''>Register now!</a>'', ''error'')],
                   reply = Redirect (url_for ''login'')\<rparr>
              | Some user \<Rightarrow>
                  if check_password_hash (user_password user) (login_password f) then
                    \<lparr>db_after = d, login_after = Some (user_id user), flashed = [],
                     reply = Redirect (url_for ''home'')\<rparr>
                  else
                    \<lparr>db_after = d, login_after = session_uid rq,
                     flashed = [(''Email and password incorrect!!'', ''error'')],
                     reply = Redirect (url_for ''login'')\<rparr>))"

text \<open>The store numbers a new user one above the largest key in the table.\<close>

definition next_user_id :: "db \<Rightarrow> nat" where
  "next_user_id d = Suc (fold max (map user_id (users d)) 0)"

text \<open>
  Modelled from the spec: the constructor \<open>User(name, email, password, phone)\<close> of
  \<^verbatim>\<open>app/db_models.py\<close> leaves the confirmation flag at its column default; the
  specification says that a new account is unconfirmed.
\<close>

definition new_User :: "nat \<Rightarrow> string \<Rightarrow> string \<Rightarrow> string \<Rightarrow> string \<Rightarrow> User" where
  "new_User key name email password phone =
     \<lparr>user_id = key, user_name = name, user_email = email, user_password = password,
      user_phone = phone, user_email_confirmed = False\<rparr>"

definition register ::
  "(string \<Rightarrow> string \<Rightarrow> nat \<Rightarrow> string) \<Rightarrow> RegisterForm option \<Rightarrow> request \<Rightarrow> db \<Rightarrow> result" where
  "register generate_password_hash form rq d =
     (if current_user rq d \<noteq> None then
        \<lparr>db_after = d, login_after = session_uid rq, flashed = [],
         reply = Redirect (url_for ''home'')\<rparr>
      else case form of
        None \<Rightarrow>
          \<lparr>db_after = d, login_after = session_uid rq, flashed = [],
           reply = Render ''register.html'' FormPage\<rparr>
      | Some f \<Rightarrow>
          (case first_by_email d (register_email f) of
             Some user \<Rightarrow>
               \<lparr>db_after = d, login_after = session_uid rq,
                flashed = [(''User with email '' @ user_email user
                              @ '' already exists!!<br> <a href='' @ url_for ''login''
                              @ ''>Login now!</a>'', ''error'')],
                reply = Redirect (url_for ''register'')\<rparr>
           | None \<Rightarrow>
               (let new_user = new_User (next_user_id d) (register_name f) (register_email f)
                                 (generate_password_hash (register_password f) ''pbkdf2:sha256'' 8)
                                 (register_phone f)
                in \<lparr>db_after = d\<lparr>users := users d @ [new_user]\<rparr>, login_after = session_uid rq,
                    flashed = [(''Thanks for registering! You may login now.'', ''success'')],
                    reply = Redirect (url_for ''login'')\<rparr>)))"

subsection \<open>Email confirmation\<close>

text \<open>
  \<open>URLSafeTimedSerializer(key).loads(token, salt, max_age)\<close> checks the signature of the
  token, which yields the signed payload and the time of signing, and then the age of
  the signature. The signature check is the library's and a parameter here
  (\<open>unsign salt token\<close>, \<open>None\<close> for a token that does not verify); the age check is
  written out: a signature older than \<open>max_age\<close> seconds has expired, and so has one
  whose age is negative (signed after the time the clock shows).
\<close>

datatype token_error = BadSignature | SignatureExpired

definition loads ::
  "(string \<Rightarrow> string \<Rightarrow> (string \<times> int) option) \<Rightarrow> int \<Rightarrow> string \<Rightarrow> string \<Rightarrow> int
     \<Rightarrow> token_error + string" where
  "loads unsign clock token salt max_age =
     (case unsign salt token of
        None \<Rightarrow> Inl BadSignature
      | Some (payload, signed_at) \<Rightarrow>
          (let age = clock - signed_at
           in if age > max_age then Inl SignatureExpired
              else if age < 0 then Inl SignatureExpired
              else Inr payload))"

text \<open>Committing a changed row rewrites the row with that primary key.\<close>

definition update_user :: "User \<Rightarrow> db \<Rightarrow> db" where
  "update_user user d = d\<lparr>users := map (\<lambda>r. if user_id r = user_id user then user else r) (users d)\<rparr>"

definition confirm_email ::
  "(string \<Rightarrow> string \<Rightarrow> (string \<times> int) option) \<Rightarrow> string \<Rightarrow> request \<Rightarrow> db \<Rightarrow> result" where
  "confirm_email unsign token rq d =
     (case loads unsign (now rq) token ''email-confirmation-salt'' 3600 of
        Inl _ \<Rightarrow>
          \<lparr>db_after = d, login_after = session_uid rq,
           flashed = [(''The confirmation link is invalid or has expired.'', ''error'')],
           reply = Redirect (url_for ''login'')\<rparr>
      | Inr email \<Rightarrow>
          (case first_by_email d email of
             None \<Rightarrow>
               \<lparr>db_after = d, login_after = session_uid rq, flashed = [],
                reply = Unhandled AttributeError\<rparr>
           | Some user \<Rightarrow>
               if user_email_confirmed user then
                 \<lparr>db_after = d, login_after = session_uid rq,
                  flashed = [(''Account already confirmed. Please login.'', ''success'')],
                  reply = Redirect (url_for ''login'')\<rparr>
               else
                 \<lparr>db_after = update_user (user\<lparr>user_email_confirmed := True\<rparr>) d,
                  login_after = session_uid rq,
                  flashed = [(''Email address successfully confirmed!'', ''success'')],
                  reply = Redirect (url_for ''login'')\<rparr>))"

section \<open>Orders page and checkout\<close>

text \<open>
  \<open>def orders():\<close> has no parameters, so a call that passes any argument raises
  \<open>TypeError\<close> before the body runs. The name \<open>orders\<close> is bound to the function as
  wrapped by \<open>@login_required\<close>, whose wrapper hands its arguments through.
\<close>

definition user_orders :: "User \<Rightarrow> db \<Rightarrow> Order list" where
  "user_orders u d = filter (\<lambda>r. order_uid r = user_id u) (orders d)"

definition orders_view :: "(string \<times> nat) list \<Rightarrow> User \<Rightarrow> request \<Rightarrow> db \<Rightarrow> result" where
  "orders_view kwargs u rq d =
     (if kwargs \<noteq> [] then
        \<lparr>db_after = d, login_after = session_uid rq, flashed = [], reply = Unhandled TypeError\<rparr>
      else
        \<lparr>db_after = d, login_after = session_uid rq, flashed = [],
         reply = Render ''orders.html'' (OrdersPage (user_orders u d))\<rparr>)"

definition orders_route :: "(string \<times> nat) list \<Rightarrow> request \<Rightarrow> db \<Rightarrow> result" where
  "orders_route kwargs = login_required (orders_view kwargs)"

text \<open>
  In \<open>checkout\<close> nothing catches an exception of the call \<open>orders(uid=...)\<close>. Were the
  call to return, its value would be a response, which \<open>db.session.add\<close> rejects as
  not being a mapped row.
\<close>

definition checkout_view :: "string \<Rightarrow> User \<Rightarrow> request \<Rightarrow> db \<Rightarrow> result" where
  "checkout_view method u rq d =
     (if method = ''POST'' then
        (let new_order = orders_route [(''uid'', user_id u)] rq d
         in case reply new_order of
              Unhandled e \<Rightarrow> new_order
            | _ \<Rightarrow> new_order\<lparr>reply := Unhandled UnmappedInstanceError\<rparr>)
      else
        \<lparr>db_after = d, login_after = session_uid rq, flashed = [],
         reply = Render ''checkout.html'' NoContext\<rparr>)"

definition checkout :: "string \<Rightarrow> request \<Rightarrow> db \<Rightarrow> result" where
  "checkout method = login_required (checkout_view method)"

section \<open>Cart page\<close>

text \<open>
  The relationship \<open>cart.item\<close> is the item row the cart row refers to, or \<open>None\<close> when
  there is none; reading \<open>cart.item.price_id\<close> then raises \<open>AttributeError\<close>. The loop
  state is the four accumulators \<open>price\<close>, \<open>price_ids\<close>, \<open>items\<close> and \<open>quantity\<close>.
\<close>

definition item_of_cart :: "db \<Rightarrow> Cart \<Rightarrow> Item option" where
  "item_of_cart d c = find (\<lambda>i. item_id i = cart_itemid c) (items d)"

record cart_acc =
  acc_price :: int
  acc_price_ids :: "(string \<times> int) list"
  acc_items :: "Item list"
  acc_quantity :: "int list"

fun cart_loop :: "db \<Rightarrow> Cart list \<Rightarrow> cart_acc \<Rightarrow> exn + cart_acc" where
  "cart_loop d [] a = Inr a"
| "cart_loop d (c # cs) a =
     (case item_of_cart d c of
        None \<Rightarrow> Inl AttributeError
      | Some it \<Rightarrow>
          cart_loop d cs
            \<lparr>acc_price = acc_price a + item_price it * cart_quantity c,
             acc_price_ids = acc_price_ids a @ [(item_price_id it, cart_quantity c)],
             acc_items = acc_items a @ [it],
             acc_quantity = acc_quantity a @ [cart_quantity c]\<rparr>)"

definition cart_view :: "User \<Rightarrow> request \<Rightarrow> db \<Rightarrow> result" where
  "cart_view u rq d =
     (case cart_loop d (user_cart u d)
             \<lparr>acc_price = 0, acc_price_ids = [], acc_items = [], acc_quantity = []\<rparr> of
        Inl e \<Rightarrow> \<lparr>db_after = d, login_after = session_uid rq, flashed = [], reply = Unhandled e\<rparr>
      | Inr a \<Rightarrow>
          \<lparr>db_after = d, login_after = session_uid rq, flashed = [],
           reply = Render ''cart.html''
                     (CartPage (acc_items a) (acc_price a) (acc_price_ids a) (acc_quantity a))\<rparr>)"

definition cart :: "request \<Rightarrow> db \<Rightarrow> result" where
  "cart = login_required cart_view"

section \<open>Search\<close>









section \<open>A small shop\<close>

text \<open>
  Concrete data to run the handlers on: one registered customer with two items in the
  cart (two of the first, one of the second), and the same shop with nothing in the cart.
\<close>

definition alice :: User where
  "alice = \<lparr>user_id = 1, user_name = ''Alice'', user_email = ''alice@example.com'',
            user_password = ''pbkdf2:sha256$ssssssss$terces'', user_phone = ''5550100'',
            user_email_confirmed = False\<rparr>"

definition shoe :: Item where
  "shoe = \<lparr>item_id = 1, item_name = ''Red Shoe'', item_price = 30, item_price_id = ''price_shoe''\<rparr>"

definition hat :: Item where
  "hat = \<lparr>item_id = 2, item_name = ''Blue Hat'', item_price = 12, item_price_id = ''price_hat''\<rparr>"

definition empty_shop :: db where
  "empty_shop = \<lparr>users = [alice], items = [shoe, hat], carts = [], orders = [], ordered_items = []\<rparr>"

definition shop :: db where
  "shop = empty_shop\<lparr>carts := [\<lparr>cart_id = 1, cart_uid = 1, cart_itemid = 1, cart_quantity = 2\<rparr>,
                               \<lparr>cart_id = 2, cart_uid = 1, cart_itemid = 2, cart_quantity = 1\<rparr>]\<rparr>"

definition as_alice :: request where
  "as_alice = \<lparr>session_uid = Some 1, now = 1000\<rparr>"

definition anonymous :: request where
  "anonymous = \<lparr>session_uid = None, now = 1000\<rparr>"

definition no_faults :: "step \<Rightarrow> string option" where
  "no_faults st = None"

text \<open>A store whose second \<open>add\<close> inside the transfer loop fails.\<close>

definition full_disk :: "step \<Rightarrow> string option" where
  "full_disk st = (if st = AddOrderedItem 1 then Some ''disk full'' else None)"

text \<open>
  Stand-ins for the two libraries, to run the handlers on concrete data (the theorems hold
  for every hasher and every signer): a hasher that writes the method, a salt of the
  asked length and the reversed password, and a signer that knows two tokens, both signed
  at time 900, one for Alice's address and one for an address nobody registered.
\<close>

definition example_generate_password_hash :: "string \<Rightarrow> string \<Rightarrow> nat \<Rightarrow> string" where
  "example_generate_password_hash password method salt_length =
     method @ ''$'' @ replicate salt_length (CHR ''s'') @ ''$'' @ rev password"

definition example_check_password_hash :: "string \<Rightarrow> string \<Rightarrow> bool" where
  "example_check_password_hash pwhash password =
     (pwhash = example_generate_password_hash password ''pbkdf2:sha256'' 8)"

definition example_unsign :: "string \<Rightarrow> string \<Rightarrow> (string \<times> int) option" where
  "example_unsign salt token =
     (if salt = ''email-confirmation-salt'' \<and> token = ''token-alice'' then
        Some (''alice@example.com'', 900)
      else if salt = ''email-confirmation-salt'' \<and> token = ''token-ghost'' then
        Some (''ghost@example.com'', 900)
      else None)"

text \<open>A request made more than an hour after the tokens were signed.\<close>

definition late :: request where
  "late = \<lparr>session_uid = None, now = 5000\<rparr>"

text \<open>A request whose clock shows a time before the tokens were signed.\<close>

definition early :: request where
  "early = \<lparr>session_uid = None, now = 800\<rparr>"

definition alice_login :: LoginForm where
  "alice_login = \<lparr>login_email = ''alice@example.com'', login_password = ''secret''\<rparr>"

definition alice_typo :: LoginForm where
  "alice_typo = \<lparr>login_email = ''alice@example.com'', login_password = ''secert''\<rparr>"

definition ghost_login :: LoginForm where
  "ghost_login = \<lparr>login_email = ''ghost@example.com'', login_password = ''secret''\<rparr>"

definition bob_form :: RegisterForm where
  "bob_form = \<lparr>register_name = ''Bob'', register_email = ''bob@example.com'',
                register_password = ''hunter2'', register_phone = ''5550101''\<rparr>"

definition alice_again :: RegisterForm where
  "alice_again = \<lparr>register_name = ''Alice'', register_email = ''alice@example.com'',
                   register_password = ''other'', register_phone = ''5550100''\<rparr>"

text \<open>
  The shop with a cart row that refers to an item the catalog does not have, and a shop
  that sells an \<open>Eclair\<close> spelled with a capital E acute (U+00C9).
\<close>

definition orphan_shop :: db where
  "orphan_shop = empty_shop\<lparr>carts := [\<lparr>cart_id = 1, cart_uid = 1, cart_itemid = 1, cart_quantity = 2\<rparr>,
                                      \<lparr>cart_id = 2, cart_uid = 1, cart_itemid = 3, cart_quantity = 1\<rparr>]\<rparr>"



section \<open>Vocabulary of the properties\<close>

text \<open>The order row and the line item that \<open>place_order\<close> builds for a cart row.\<close>

definition pending_order :: "User \<Rightarrow> request \<Rightarrow> db \<Rightarrow> Order" where
  "pending_order u rq d =
     \<lparr>order_id = next_order_id d, order_uid = user_id u, order_date = now rq,
      order_status = ''Pending''\<rparr>"

definition line_of :: "nat \<Rightarrow> Cart \<Rightarrow> Ordered_item" where
  "line_of oid c =
     \<lparr>ordered_oid = oid, ordered_itemid = cart_itemid c, ordered_quantity = cart_quantity c\<rparr>"

text \<open>The line items of an order, as (item, quantity) pairs.\<close>

definition order_lines :: "nat \<Rightarrow> db \<Rightarrow> (nat \<times> int) list" where
  "order_lines oid d =
     map (\<lambda>oi. (ordered_itemid oi, ordered_quantity oi))
       (filter (\<lambda>oi. ordered_oid oi = oid) (ordered_items d))"

text \<open>The foreign key of \<open>Ordered_item\<close>: every line item belongs to an order of the store.\<close>

definition lines_have_orders :: "db \<Rightarrow> bool" where
  "lines_have_orders d =
     list_all (\<lambda>oi. ordered_oid oi \<in> set (map order_id (orders d))) (ordered_items d)"



text \<open>
  An exception is raised during the transfer of a cart of \<open>n\<close> rows: by an \<open>add\<close> or a
  \<open>delete\<close> of one of the \<open>n\<close> loop iterations, or by the final commit.
\<close>

definition transfer_raises :: "(step \<Rightarrow> string option) \<Rightarrow> nat \<Rightarrow> bool" where
  "transfer_raises raises n =
     (list_ex (\<lambda>k. raises (AddOrderedItem k) \<noteq> None \<or> raises (DeleteCartEntry k) \<noteq> None) [0..<n]
      \<or> raises CommitTransfer \<noteq> None)"

section \<open>Facts about the store\<close>

lemma fold_max_ge: "(a::nat) \<le> fold max xs a"
  by (induction xs arbitrary: a) (auto intro: order_trans [OF max.cobounded2])

lemma fold_max_member: "x \<in> set xs \<Longrightarrow> (x::nat) \<le> fold max xs a"
proof (induction xs arbitrary: a)
  case Nil
  then show ?case by simp
next
  case (Cons y ys)
  show ?case
  proof (cases "x = y")
    case True
    have "y \<le> max y a" by simp
    also have "\<dots> \<le> fold max ys (max y a)" by (rule fold_max_ge)
    finally show ?thesis using True by simp
  next
    case False
    with Cons show ?thesis by simp
  qed
qed

lemma next_order_id_fresh:
  "lines_have_orders d \<Longrightarrow> filter (\<lambda>oi. ordered_oid oi = next_order_id d) (ordered_items d) = []"
proof -
  assume a: "lines_have_orders d"
  have "ordered_oid oi \<noteq> next_order_id d" if "oi \<in> set (ordered_items d)" for oi
  proof -
    from a that have "ordered_oid oi \<in> set (map order_id (orders d))"
      by (simp add: lines_have_orders_def list_all_iff)
    then have "ordered_oid oi \<le> fold max (map order_id (orders d)) 0"
      by (rule fold_max_member)
    then show ?thesis by (simp add: next_order_id_def)
  qed
  then show ?thesis by (simp add: filter_empty_conv)
qed

lemma transfer_done:
  "transfer raises oid k cs s = Inr s' \<Longrightarrow>
     committed s' = committed s
   \<and> users (pending s') = users (pending s)
   \<and> items (pending s') = items (pending s)
   \<and> orders (pending s') = orders (pending s)
   \<and> ordered_items (pending s') = ordered_items (pending s) @ map (line_of oid) cs
   \<and> carts (pending s') = filter (\<lambda>r. cart_id r \<notin> cart_id ` set cs) (carts (pending s))"
proof (induction cs arbitrary: k s)
  case Nil
  then show ?case by simp
next
  case (Cons c cs)
  from Cons.prems obtain
    r: "transfer raises oid (Suc k) cs
          (session_delete_cart c (session_add_ordered_item (line_of oid c) s)) = Inr s'"
    by (auto simp: Let_def line_of_def split: option.splits)
  from Cons.IH [OF r] show ?case
    by (auto simp: session_delete_cart_def session_add_ordered_item_def intro: filter_cong)
qed

lemma transfer_failed:
  "transfer raises oid k cs s = Inl (e, s') \<Longrightarrow> committed s' = committed s"
proof (induction cs arbitrary: k s)
  case Nil
  then show ?case by simp
next
  case (Cons c cs)
  then show ?case
    by (auto simp: Let_def session_delete_cart_def session_add_ordered_item_def
             split: option.splits)
qed

lemma try_place_order_done:
  assumes "try_place_order raises u rq (begin_session d) = Inr s"
  shows "users (committed s) = users d \<and> items (committed s) = items d
       \<and> orders (committed s) = orders d @ [pending_order u rq d]
       \<and> ordered_items (committed s) =
             ordered_items d @ map (line_of (next_order_id d)) (user_cart u d)
       \<and> carts (committed s) =
             filter (\<lambda>r. cart_id r \<notin> cart_id ` set (user_cart u d)) (carts d)"
proof -
  let ?s2 = "session_commit (session_add_order (pending_order u rq d) (begin_session d))"
  from assms obtain s3 where
    t: "transfer raises (next_order_id d) 0 (user_cart u (pending ?s2)) ?s2 = Inr s3"
    and s: "s = session_commit s3"
    by (auto simp: try_place_order_def Let_def pending_order_def begin_session_def
             split: option.splits sum.splits)
  have c: "user_cart u (pending ?s2) = user_cart u d"
    by (simp add: user_cart_def session_commit_def session_add_order_def begin_session_def)
  from transfer_done [OF t] show ?thesis
    unfolding s c
    by (simp add: session_commit_def session_add_order_def begin_session_def)
qed

lemma try_place_order_failed:
  assumes "try_place_order raises u rq (begin_session d) = Inl (e, s)"
  shows "committed s =
           (if raises CommitOrder = None then d\<lparr>orders := orders d @ [pending_order u rq d]\<rparr>
            else d)"
proof (cases "raises CommitOrder")
  case (Some m)
  with assms show ?thesis
    by (auto simp: try_place_order_def Let_def session_add_order_def begin_session_def)
next
  case None
  let ?s2 = "session_commit (session_add_order (pending_order u rq d) (begin_session d))"
  have c2: "committed ?s2 = d\<lparr>orders := orders d @ [pending_order u rq d]\<rparr>"
    by (simp add: session_commit_def session_add_order_def begin_session_def)
  let ?t = "transfer raises (next_order_id d) 0 (user_cart u (pending ?s2)) ?s2"
  show ?thesis
  proof (cases ?t)
    case (Inl x)
    with assms None have "?t = Inl (e, s)"
      by (simp add: try_place_order_def Let_def pending_order_def begin_session_def)
    from transfer_failed [OF this] c2 None show ?thesis by simp
  next
    case (Inr s3)
    with assms None have "s = s3"
      by (auto simp: try_place_order_def Let_def pending_order_def begin_session_def
               split: option.splits)
    with transfer_done [OF Inr] c2 None show ?thesis by simp
  qed
qed

lemma url_for_orders_cart: "url_for ''cart'' \<noteq> url_for ''orders''"
  by (simp add: url_for_def)

lemma shop_alice: "current_user as_alice shop = Some alice"
  by (simp add: current_user_def as_alice_def load_user_def shop_def empty_shop_def alice_def)

lemma shop_cart:
  "user_cart alice shop = [\<lparr>cart_id = 1, cart_uid = 1, cart_itemid = 1, cart_quantity = 2\<rparr>,
                            \<lparr>cart_id = 2, cart_uid = 1, cart_itemid = 2, cart_quantity = 1\<rparr>]"
  by (simp add: user_cart_def shop_def empty_shop_def alice_def)

lemma shop_place_order:
  "place_order no_faults as_alice shop =
     \<lparr>db_after = shop\<lparr>carts := [],
                         orders := [\<lparr>order_id = 1, order_uid = 1, order_date = 1000,
                                      order_status = ''Pending''\<rparr>],
                         ordered_items := [\<lparr>ordered_oid = 1, ordered_itemid = 1, ordered_quantity = 2\<rparr>,
                                           \<lparr>ordered_oid = 1, ordered_itemid = 2, ordered_quantity = 1\<rparr>]\<rparr>,
      login_after = Some 1,
      flashed = [(''Order placed successfully! Cash on Delivery selected.'', ''success'')],
      reply = Redirect ''/orders''\<rparr>"
  by (simp add: place_order_def login_required_def current_user_def load_user_def
        place_order_view_def user_cart_def try_place_order_def Let_def no_faults_def
        begin_session_def session_commit_def session_add_order_def session_add_ordered_item_def
        session_delete_cart_def next_order_id_def url_for_def shop_def empty_shop_def alice_def
        as_alice_def)

lemma shop_place_order_full_disk:
  "place_order full_disk as_alice shop =
     \<lparr>db_after = shop\<lparr>orders := [\<lparr>order_id = 1, order_uid = 1, order_date = 1000,
                                      order_status = ''Pending''\<rparr>]\<rparr>,
      login_after = Some 1,
      flashed = [(''An error occurred while placing the order: disk full'', ''error'')],
      reply = Redirect ''/cart''\<rparr>"
  by (simp add: place_order_def login_required_def current_user_def load_user_def
        place_order_view_def user_cart_def try_place_order_def Let_def full_disk_def
        begin_session_def session_commit_def session_add_order_def session_add_ordered_item_def
        session_delete_cart_def session_rollback_def next_order_id_def url_for_def shop_def
        empty_shop_def alice_def as_alice_def)

section \<open>Order placement: the empty cart\<close>

text \<open>
  Claim C3. For an authenticated user whose cart is empty, \<open>place_order\<close> flashes the
  "cart is empty" error, redirects to the cart page and leaves the store as it was; in
  particular the numbers of orders, ordered items and cart rows are the same before and
  after the request.
\<close>

theorem place_order_empty_cart:
  assumes "current_user rq d = Some u" and "user_cart u d = []"
  shows "db_after (place_order raises rq d) = d
       \<and> length (orders (db_after (place_order raises rq d))) = length (orders d)
       \<and> length (ordered_items (db_after (place_order raises rq d))) = length (ordered_items d)
       \<and> length (carts (db_after (place_order raises rq d))) = length (carts d)
       \<and> flashed (place_order raises rq d) =
           [(''Your cart is empty. Please add items to your cart before placing an order.'',
             ''error'')]
       \<and> reply (place_order raises rq d) = Redirect (url_for ''cart'')"
  using assms by (simp add: place_order_def login_required_def place_order_view_def)

theorem place_order_empty_cart_witness:
  "current_user as_alice empty_shop = Some alice \<and> user_cart alice empty_shop = []
     \<and> db_after (place_order no_faults as_alice empty_shop) = empty_shop
     \<and> reply (place_order no_faults as_alice empty_shop) = Redirect ''/cart''"
proof -
  have u: "current_user as_alice empty_shop = Some alice"
    by (simp add: current_user_def as_alice_def load_user_def empty_shop_def alice_def)
  have c: "user_cart alice empty_shop = []"
    by (simp add: user_cart_def empty_shop_def)
  show ?thesis
    using u c place_order_empty_cart [OF u c, of no_faults] by (simp add: url_for_def)
qed


section \<open>Order placement: the transfer\<close>

text \<open>When no call of the store raises, a non-empty cart is always turned into an order.\<close>

lemma place_order_without_faults:
  assumes "current_user rq d = Some u" and "user_cart u d \<noteq> []"
  shows "reply (place_order no_faults rq d) = Redirect (url_for ''orders'')"
proof -
  have ex: "\<exists>s'. transfer no_faults oid k cs s = Inr s'" for oid k cs s
    by (induction cs arbitrary: k s) (simp_all add: no_faults_def Let_def)
  let ?s2 = "session_commit (session_add_order (pending_order u rq d) (begin_session d))"
  from ex obtain s3 where
    "transfer no_faults (next_order_id d) 0 (user_cart u (pending ?s2)) ?s2 = Inr s3"
    by blast
  then have "try_place_order no_faults u rq (begin_session d) = Inr (session_commit s3)"
    by (simp add: try_place_order_def Let_def no_faults_def begin_session_def pending_order_def)
  with assms show ?thesis
    by (simp add: place_order_def login_required_def place_order_view_def)
qed

text \<open>
  Every line item belongs to an order: \<open>place_order\<close>, the only handler that writes
  the two tables, keeps it so, whether the request succeeds or fails.
\<close>

lemma place_order_keeps_lines_have_orders:
  assumes "lines_have_orders d"
  shows "lines_have_orders (db_after (place_order raises rq d))"
proof (cases "current_user rq d")
  case None
  with assms show ?thesis
    by (simp add: place_order_def login_required_def)
next
  case (Some u)
  show ?thesis
  proof (cases "user_cart u d = []")
    case True
    with Some assms show ?thesis
      by (simp add: place_order_def login_required_def place_order_view_def)
  next
    case False
    show ?thesis
    proof (cases "try_place_order raises u rq (begin_session d)")
      case (Inl x)
      obtain e s where x: "x = (e, s)" by (cases x)
      from try_place_order_failed [OF Inl [unfolded x]]
      have "committed s = d\<lparr>orders := orders d @ [pending_order u rq d]\<rparr> \<or> committed s = d"
        by (simp split: if_splits)
      with assms have "lines_have_orders (committed s)"
        by (auto simp: lines_have_orders_def list_all_iff)
      with Some False Inl x show ?thesis
        by (simp add: place_order_def login_required_def place_order_view_def
              session_rollback_def)
    next
      case (Inr s)
      from try_place_order_done [OF Inr] assms have "lines_have_orders (committed s)"
        by (auto simp: lines_have_orders_def list_all_iff line_of_def pending_order_def)
      with Some False Inr show ?thesis
        by (simp add: place_order_def login_required_def place_order_view_def)
    qed
  qed
qed


text \<open>
  Claim C2. For a user with a non-empty cart, a successful \<open>place_order\<close> (the reply is
  the redirect to the orders page) appends exactly one order to the table, with the
  user's key, the current time and the status "Pending"; the line items of that order
  are, as (item, quantity) pairs and in order, the cart rows the user had when the
  request began; and afterwards the user has no cart row left, none of the former rows
  being in the table. The line items of an order are found by its key, so the statement
  is about a store whose line items all belong to existing orders (the foreign key of
  the table).
\<close>

theorem place_order_transfers_cart:
  assumes "current_user rq d = Some u"
    and "user_cart u d \<noteq> []"
    and "lines_have_orders d"
    and "reply (place_order raises rq d) = Redirect (url_for ''orders'')"
  shows "orders (db_after (place_order raises rq d)) = orders d @ [pending_order u rq d]
       \<and> order_lines (order_id (pending_order u rq d)) (db_after (place_order raises rq d)) =
             map (\<lambda>c. (cart_itemid c, cart_quantity c)) (user_cart u d)
       \<and> user_cart u (db_after (place_order raises rq d)) = []
       \<and> set (carts (db_after (place_order raises rq d))) \<inter> set (user_cart u d) = {}"
proof -
  let ?r = "place_order raises rq d"
  from assms(1,2,4) obtain s where
    t: "try_place_order raises u rq (begin_session d) = Inr s" and r: "db_after ?r = committed s"
    by (auto simp: place_order_def login_required_def place_order_view_def url_for_orders_cart
             split: sum.splits prod.splits)
  note fin = try_place_order_done [OF t]
  have fresh: "filter (\<lambda>oi. ordered_oid oi = next_order_id d) (ordered_items d) = []"
    using assms(3) by (rule next_order_id_fresh)
  have 1: "orders (db_after ?r) = orders d @ [pending_order u rq d]"
    using fin r by simp
  have 2: "order_lines (order_id (pending_order u rq d)) (db_after ?r) =
             map (\<lambda>c. (cart_itemid c, cart_quantity c)) (user_cart u d)"
    using fin r fresh
    by (simp add: order_lines_def pending_order_def line_of_def comp_def)
  have 3: "user_cart u (db_after ?r) = []"
    using fin r by (auto simp: user_cart_def filter_empty_conv)
  have 4: "set (carts (db_after ?r)) \<inter> set (user_cart u d) = {}"
    using fin r by auto
  from 1 2 3 4 show ?thesis by simp
qed

theorem place_order_transfers_cart_witness:
  "current_user as_alice shop = Some alice \<and> user_cart alice shop \<noteq> []
     \<and> lines_have_orders shop
     \<and> reply (place_order no_faults as_alice shop) = Redirect (url_for ''orders'')
     \<and> orders (db_after (place_order no_faults as_alice shop)) =
           [\<lparr>order_id = 1, order_uid = 1, order_date = 1000, order_status = ''Pending''\<rparr>]
     \<and> order_lines 1 (db_after (place_order no_faults as_alice shop)) = [(1, 2), (2, 1)]
     \<and> user_cart alice (db_after (place_order no_faults as_alice shop)) = []"
proof -
  have c: "user_cart alice shop \<noteq> []"
    by (simp add: shop_cart)
  have k: "lines_have_orders shop"
    by (simp add: lines_have_orders_def shop_def empty_shop_def)
  have r: "reply (place_order no_faults as_alice shop) = Redirect (url_for ''orders'')"
    by (simp add: shop_place_order url_for_def)
  have p: "pending_order alice as_alice shop =
             \<lparr>order_id = 1, order_uid = 1, order_date = 1000, order_status = ''Pending''\<rparr>"
    by (simp add: pending_order_def next_order_id_def shop_def empty_shop_def alice_def as_alice_def)
  have o: "orders shop = []"
    by (simp add: shop_def empty_shop_def)
  show ?thesis
    using shop_alice c k r place_order_transfers_cart [OF shop_alice c k r]
    by (simp add: p o shop_cart)
qed

text \<open>
  An exception during the transfer always ends the \<open>try\<close> block with that exception:
  a raise in one of the loop iterations or in the final commit is never swallowed.
\<close>

lemma transfer_raise:
  assumes "j < length cs"
    and "raises (AddOrderedItem (k + j)) \<noteq> None \<or> raises (DeleteCartEntry (k + j)) \<noteq> None"
  shows "\<exists>e s'. transfer raises oid k cs s = Inl (e, s')"
  using assms
proof (induction cs arbitrary: k j s)
  case Nil
  then show ?case by simp
next
  case (Cons c cs)
  show ?case
  proof (cases "raises (AddOrderedItem k) = None \<and> raises (DeleteCartEntry k) = None")
    case False
    then show ?thesis
      by (auto simp: Let_def split: option.splits)
  next
    case True
    with Cons.prems(2) have "j \<noteq> 0"
      by (cases j) auto
    then obtain i where i: "j = Suc i"
      by (cases j) auto
    with Cons.prems have "i < length cs"
      and "raises (AddOrderedItem (Suc k + i)) \<noteq> None
             \<or> raises (DeleteCartEntry (Suc k + i)) \<noteq> None"
      by simp_all
    from Cons.IH [OF this] True show ?thesis
      by (simp add: Let_def)
  qed
qed

lemma try_place_order_raise:
  assumes "raises CommitOrder = None"
    and "transfer_raises raises (length (user_cart u d))"
  shows "\<exists>e s. try_place_order raises u rq (begin_session d) = Inl (e, s)"
proof -
  let ?s2 = "session_commit (session_add_order (pending_order u rq d) (begin_session d))"
  let ?t = "transfer raises (next_order_id d) 0 (user_cart u (pending ?s2)) ?s2"
  have c: "user_cart u (pending ?s2) = user_cart u d"
    by (simp add: user_cart_def session_commit_def session_add_order_def begin_session_def)
  have t: "try_place_order raises u rq (begin_session d) =
             (case ?t of
                Inl x \<Rightarrow> Inl x
              | Inr s3 \<Rightarrow>
                  (case raises CommitTransfer of
                     Some e \<Rightarrow> Inl (e, s3)
                   | None \<Rightarrow> Inr (session_commit s3)))"
    using assms(1)
    by (simp add: try_place_order_def Let_def pending_order_def begin_session_def)
  show ?thesis
  proof (cases ?t)
    case (Inl x)
    then show ?thesis
      unfolding t by (cases x) simp
  next
    case (Inr s3)
    have "\<not> (\<exists>j < length (user_cart u d).
              raises (AddOrderedItem (0 + j)) \<noteq> None \<or> raises (DeleteCartEntry (0 + j)) \<noteq> None)"
    proof
      assume "\<exists>j < length (user_cart u d).
                raises (AddOrderedItem (0 + j)) \<noteq> None \<or> raises (DeleteCartEntry (0 + j)) \<noteq> None"
      then obtain j where "j < length (user_cart u d)"
        and "raises (AddOrderedItem (0 + j)) \<noteq> None \<or> raises (DeleteCartEntry (0 + j)) \<noteq> None"
        by blast
      from transfer_raise [OF this, of "next_order_id d" ?s2] Inr show False
        by (simp add: c)
    qed
    with assms(2) have "raises CommitTransfer \<noteq> None"
      by (auto simp: transfer_raises_def list_ex_iff)
    with Inr show ?thesis
      unfolding t by auto
  qed
qed

text \<open>
  What the handler does then: the store after the request is the store before it plus
  the new order row. The line items and the cart deletions are rolled back, the error is
  flashed and the reply redirects to the cart page; the order, committed before the
  loop, is out of the rollback's reach.
\<close>

lemma place_order_failure_leaves_order:
  assumes "current_user rq d = Some u"
    and "user_cart u d \<noteq> []"
    and "raises CommitOrder = None"
    and "transfer_raises raises (length (user_cart u d))"
  shows "db_after (place_order raises rq d) = d\<lparr>orders := orders d @ [pending_order u rq d]\<rparr>
       \<and> carts (db_after (place_order raises rq d)) = carts d
       \<and> ordered_items (db_after (place_order raises rq d)) = ordered_items d
       \<and> (\<exists>e. flashed (place_order raises rq d) =
                  [(''An error occurred while placing the order: '' @ e, ''error'')])
       \<and> reply (place_order raises rq d) = Redirect (url_for ''cart'')"
proof -
  from try_place_order_raise [OF assms(3,4)] obtain e s where
    t: "try_place_order raises u rq (begin_session d) = Inl (e, s)"
    by blast
  with assms(1,2) have
    r: "place_order raises rq d =
          \<lparr>db_after = committed (session_rollback s), login_after = session_uid rq,
           flashed = [(''An error occurred while placing the order: '' @ e, ''error'')],
           reply = Redirect (url_for ''cart'')\<rparr>"
    by (simp add: place_order_def login_required_def place_order_view_def)
  from try_place_order_failed [OF t] assms(3)
  have "committed s = d\<lparr>orders := orders d @ [pending_order u rq d]\<rparr>" by simp
  then show ?thesis
    unfolding r by (simp add: session_rollback_def)
qed

text \<open>
  Claim C1. The claim asks that an exception during the transfer undoes the whole
  placement, the new order included, and the handler is written towards that: the order
  is created inside the \<open>try\<close> block whose handler rolls back and reports the failure.
  But the order is committed before the loop ("commit to get the order ID"), so the
  rollback cannot take it back. At the failing input (Alice's cart of two rows and a
  store whose second \<open>add\<close> in the loop raises) the request ends with the error message
  and an unchanged cart, as claimed, and with an order row that has no line items, which
  the claim excludes.
\<close>

theorem place_order_orphan_order:
  "reply (place_order full_disk as_alice shop) = Redirect ''/cart''
     \<and> flashed (place_order full_disk as_alice shop) =
           [(''An error occurred while placing the order: disk full'', ''error'')]
     \<and> carts (db_after (place_order full_disk as_alice shop)) = carts shop
     \<and> ordered_items (db_after (place_order full_disk as_alice shop)) = []
     \<and> orders shop = []
     \<and> orders (db_after (place_order full_disk as_alice shop)) =
           [\<lparr>order_id = 1, order_uid = 1, order_date = 1000, order_status = ''Pending''\<rparr>]
     \<and> db_after (place_order full_disk as_alice shop) \<noteq> shop"
proof -
  have o: "orders shop = []"
    by (simp add: shop_def empty_shop_def)
  have i: "ordered_items shop = []"
    by (simp add: shop_def empty_shop_def)
  have "orders (db_after (place_order full_disk as_alice shop)) \<noteq> orders shop"
    unfolding o by (simp add: shop_place_order_full_disk)
  then have "db_after (place_order full_disk as_alice shop) \<noteq> shop"
    by auto
  with o i show ?thesis
    by (simp add: shop_place_order_full_disk)
qed

section \<open>Checkout\<close>

text \<open>
  Claim C9. For an authenticated user, every POST to \<open>/checkout\<close> ends in an unhandled
  \<open>TypeError\<close>: the handler calls the parameterless view \<open>orders\<close> with the keyword
  argument \<open>uid\<close>. Nothing is flashed and the store, the orders table in particular, is
  as it was.
\<close>

theorem checkout_post_raises:
  assumes "current_user rq d = Some u"
  shows "reply (checkout ''POST'' rq d) = Unhandled TypeError
       \<and> db_after (checkout ''POST'' rq d) = d
       \<and> orders (db_after (checkout ''POST'' rq d)) = orders d
       \<and> flashed (checkout ''POST'' rq d) = []"
  using assms
  by (simp add: checkout_def login_required_def checkout_view_def orders_route_def
        orders_view_def)

theorem checkout_post_raises_witness:
  "current_user as_alice shop = Some alice
     \<and> reply (checkout ''POST'' as_alice shop) = Unhandled TypeError
     \<and> db_after (checkout ''POST'' as_alice shop) = shop"
  using shop_alice checkout_post_raises [OF shop_alice] by simp

section \<open>The cart page\<close>

lemma cart_loop_sum:
  "map (item_of_cart d) cs = map Some its \<Longrightarrow>
     cart_loop d cs a =
       Inr \<lparr>acc_price = acc_price a + (\<Sum>(it, c)\<leftarrow>zip its cs. item_price it * cart_quantity c),
            acc_price_ids = acc_price_ids a @ map (\<lambda>(it, c). (item_price_id it, cart_quantity c)) (zip its cs),
            acc_items = acc_items a @ its,
            acc_quantity = acc_quantity a @ map cart_quantity cs\<rparr>"
proof (induction cs arbitrary: its a)
  case Nil
  then show ?case by simp
next
  case (Cons c cs)
  from Cons.prems obtain it rest where
    its: "its = it # rest" and it: "item_of_cart d c = Some it"
    and rest: "map (item_of_cart d) cs = map Some rest"
    by (cases its) auto
  show ?case
    unfolding its using it Cons.IH [OF rest] by (simp add: add.assoc)
qed

lemma cart_loop_missing:
  "None \<in> set (map (item_of_cart d) cs) \<Longrightarrow> cart_loop d cs a = Inl AttributeError"
  by (induction cs arbitrary: a) (auto split: option.splits)

lemma shop_cart_items: "map (item_of_cart shop) (user_cart alice shop) = map Some [shoe, hat]"
  by (simp add: shop_cart) (simp add: item_of_cart_def shop_def empty_shop_def shoe_def hat_def)

text \<open>
  Claim C8, as the specification states it, fails: not every cart state has a total. In
  a cart with a row whose item is not in the catalog the relationship \<open>cart.item\<close> is
  \<open>None\<close>, and the handler raises \<open>AttributeError\<close> instead of rendering the page.
\<close>

theorem cart_missing_item_counterexample:
  "current_user as_alice orphan_shop = Some alice
     \<and> length (user_cart alice orphan_shop) = 2
     \<and> reply (cart as_alice orphan_shop) = Unhandled AttributeError"
  by (simp add: cart_def login_required_def current_user_def load_user_def cart_view_def
        user_cart_def item_of_cart_def as_alice_def orphan_shop_def empty_shop_def alice_def
        shoe_def hat_def)

text \<open>
  Claim C8, amended. For an authenticated user whose cart rows all refer to items of the
  catalog (\<open>its\<close> are those items, row by row), the cart page is rendered with exactly
  these items and the quantities of the rows, in order, and with the total price
  \<open>\<Sum> item.price * quantity\<close> over the rows.
\<close>

theorem cart_total_is_sum:
  assumes "current_user rq d = Some u"
    and "map (item_of_cart d) (user_cart u d) = map Some its"
  shows "reply (cart rq d) =
           Render ''cart.html''
             (CartPage its
                (\<Sum>(it, c)\<leftarrow>zip its (user_cart u d). item_price it * cart_quantity c)
                (map (\<lambda>(it, c). (item_price_id it, cart_quantity c)) (zip its (user_cart u d)))
                (map cart_quantity (user_cart u d)))
       \<and> db_after (cart rq d) = d"
  using assms(1) cart_loop_sum [OF assms(2)]
  by (simp add: cart_def login_required_def cart_view_def)

theorem cart_total_is_sum_witness:
  "current_user as_alice shop = Some alice
     \<and> map (item_of_cart shop) (user_cart alice shop) = map Some [shoe, hat]
     \<and> reply (cart as_alice shop) =
         Render ''cart.html'' (CartPage [shoe, hat] 72 [(''price_shoe'', 2), (''price_hat'', 1)] [2, 1])"
  using shop_alice shop_cart_items cart_total_is_sum [OF shop_alice shop_cart_items]
  by (simp add: shop_cart) (simp add: shoe_def hat_def)

section \<open>Registration and login\<close>

lemma first_by_email_None: "first_by_email d e = None \<longleftrightarrow> e \<notin> set (map user_email (users d))"
  by (auto simp: first_by_email_def find_None_iff)

lemma first_by_email_Some:
  "first_by_email d e = Some u \<Longrightarrow> u \<in> set (users d) \<and> user_email u = e"
  by (auto simp: first_by_email_def find_Some_iff)

lemma first_by_email_stored:
  assumes "distinct (map user_email (users d))" and "u \<in> set (users d)"
  shows "first_by_email d (user_email u) = Some u"
proof -
  from assms(2) have "user_email u \<in> set (map user_email (users d))" by simp
  then obtain v where v: "first_by_email d (user_email u) = Some v"
    by (cases "first_by_email d (user_email u)") (simp_all add: first_by_email_None)
  from first_by_email_Some [OF v] have "v \<in> set (users d)" "user_email v = user_email u"
    by simp_all
  with assms have "v = u" by (simp add: distinct_map inj_on_def)
  with v show ?thesis by simp
qed

lemma shop_anonymous: "current_user anonymous d = None"
  by (simp add: current_user_def anonymous_def)

lemma shop_users: "users shop = [alice]"
  by (simp add: shop_def empty_shop_def)

lemma shop_first_alice: "first_by_email shop ''alice@example.com'' = Some alice"
  by (simp add: first_by_email_def shop_users) (simp add: alice_def)

lemma shop_first_ghost: "first_by_email shop ''ghost@example.com'' = None"
  by (simp add: first_by_email_def shop_users) (simp add: alice_def)

lemma alice_hash: "example_generate_password_hash ''secret'' ''pbkdf2:sha256'' 8 = user_password alice"
  by (simp add: example_generate_password_hash_def alice_def eval_nat_numeral)

lemma register_existing_email:
  assumes "current_user rq d = None"
    and "register_email f \<in> set (map user_email (users d))"
  shows "register g (Some f) rq d =
           \<lparr>db_after = d, login_after = session_uid rq,
            flashed = [(''User with email '' @ register_email f
                          @ '' already exists!!<br> <a href='' @ url_for ''login''
                          @ ''>Login now!</a>'', ''error'')],
            reply = Redirect (url_for ''register'')\<rparr>"
proof -
  from assms(2) obtain user where u: "first_by_email d (register_email f) = Some user"
    by (cases "first_by_email d (register_email f)") (simp_all add: first_by_email_None)
  from first_by_email_Some [OF u] have "user_email user = register_email f"
    by simp
  with u assms(1) show ?thesis
    by (simp add: register_def)
qed

lemma register_fresh_email:
  assumes "current_user rq d = None"
    and "register_email f \<notin> set (map user_email (users d))"
  shows "register g (Some f) rq d =
           \<lparr>db_after = d\<lparr>users := users d @
                        [new_User (next_user_id d) (register_name f) (register_email f)
                           (g (register_password f) ''pbkdf2:sha256'' 8) (register_phone f)]\<rparr>,
            login_after = session_uid rq,
            flashed = [(''Thanks for registering! You may login now.'', ''success'')],
            reply = Redirect (url_for ''login'')\<rparr>"
proof -
  from assms(2) have "first_by_email d (register_email f) = None"
    by (simp add: first_by_email_None)
  with assms(1) show ?thesis
    by (simp add: register_def)
qed

text \<open>
  Claim C5. A registration attempt is a validated submission of the form by a caller who
  is not logged in. If its email is already in the user table, the attempt flashes the
  "already exists" error, redirects to the registration page and leaves the store as it
  was, so no second row appears. If the email is fresh, exactly one row is appended: its
  password is what \<open>generate_password_hash\<close> returns for the submitted password with
  method \<open>pbkdf2:sha256\<close> and a salt of length 8, and its confirmation flag is false.
\<close>

theorem register_conflict_or_create:
  assumes "current_user rq d = None"
  shows "(register_email f \<in> set (map user_email (users d)) \<longrightarrow>
            db_after (register generate_password_hash (Some f) rq d) = d
          \<and> flashed (register generate_password_hash (Some f) rq d) =
              [(''User with email '' @ register_email f @ '' already exists!!<br> <a href=''
                  @ url_for ''login'' @ ''>Login now!</a>'', ''error'')]
          \<and> reply (register generate_password_hash (Some f) rq d) = Redirect (url_for ''register''))
       \<and> (register_email f \<notin> set (map user_email (users d)) \<longrightarrow>
            db_after (register generate_password_hash (Some f) rq d) =
              d\<lparr>users := users d @
                   [\<lparr>user_id = next_user_id d, user_name = register_name f,
                     user_email = register_email f,
                     user_password = generate_password_hash (register_password f) ''pbkdf2:sha256'' 8,
                     user_phone = register_phone f, user_email_confirmed = False\<rparr>]\<rparr>
          \<and> flashed (register generate_password_hash (Some f) rq d) =
              [(''Thanks for registering! You may login now.'', ''success'')]
          \<and> reply (register generate_password_hash (Some f) rq d) = Redirect (url_for ''login''))"
  using register_existing_email [where g = generate_password_hash and f = f, OF assms]
    register_fresh_email [where g = generate_password_hash and f = f, OF assms]
  by (simp add: new_User_def)

theorem register_conflict_or_create_witness:
  "current_user anonymous shop = None
     \<and> register_email alice_again \<in> set (map user_email (users shop))
     \<and> db_after (register example_generate_password_hash (Some alice_again) anonymous shop) = shop
     \<and> reply (register example_generate_password_hash (Some alice_again) anonymous shop) =
         Redirect ''/register''
     \<and> register_email bob_form \<notin> set (map user_email (users shop))
     \<and> users (db_after (register example_generate_password_hash (Some bob_form) anonymous shop)) =
         [alice,
          \<lparr>user_id = 2, user_name = ''Bob'', user_email = ''bob@example.com'',
           user_password = ''pbkdf2:sha256$ssssssss$2retnuh'', user_phone = ''5550101'',
           user_email_confirmed = False\<rparr>]"
proof -
  have a: "register_email alice_again \<in> set (map user_email (users shop))"
    by (simp add: alice_again_def shop_users alice_def)
  have b: "register_email bob_form \<notin> set (map user_email (users shop))"
    by (simp add: bob_form_def shop_users alice_def)
  have n: "next_user_id shop = 2"
    by (simp add: next_user_id_def shop_users alice_def)
  have h: "example_generate_password_hash (register_password bob_form) ''pbkdf2:sha256'' 8 =
             ''pbkdf2:sha256$ssssssss$2retnuh''"
    by (simp add: example_generate_password_hash_def bob_form_def eval_nat_numeral)
  show ?thesis
    using a b
      register_conflict_or_create [OF shop_anonymous, of alice_again shop example_generate_password_hash]
      register_conflict_or_create [OF shop_anonymous, of bob_form shop example_generate_password_hash]
    by (simp add: shop_anonymous n h shop_users url_for_def) (simp add: bob_form_def)
qed

text \<open>
  Registering twice: after a registration with a fresh email, any further attempt with
  that email is a conflict. Registration keeps the emails of the table distinct, and in
  such a table every stored user is the one found by their email.
\<close>

lemma register_twice:
  assumes "current_user rq d = None"
    and "register_email f \<notin> set (map user_email (users d))"
    and "current_user rq' (db_after (register g (Some f) rq d)) = None"
    and "register_email f' = register_email f"
  shows "db_after (register g' (Some f') rq' (db_after (register g (Some f) rq d))) =
           db_after (register g (Some f) rq d)
       \<and> reply (register g' (Some f') rq' (db_after (register g (Some f) rq d))) =
           Redirect (url_for ''register'')"
proof -
  let ?d1 = "db_after (register g (Some f) rq d)"
  have "register_email f' \<in> set (map user_email (users ?d1))"
    by (simp add: register_fresh_email [OF assms(1,2)] new_User_def assms(4))
  from register_existing_email [OF assms(3) this] show ?thesis
    by simp
qed

lemma register_keeps_emails_distinct:
  assumes "distinct (map user_email (users d))"
  shows "distinct (map user_email (users (db_after (register g form rq d))))"
proof (cases "current_user rq d \<noteq> None \<or> form = None")
  case True
  with assms show ?thesis
    by (auto simp: register_def)
next
  case False
  then obtain f where f: "current_user rq d = None" "form = Some f" by auto
  show ?thesis
  proof (cases "first_by_email d (register_email f)")
    case None
    then have "register_email f \<notin> set (map user_email (users d))"
      by (simp add: first_by_email_None)
    with None f assms show ?thesis
      by (simp add: register_def new_User_def)
  next
    case (Some user)
    with f assms show ?thesis
      by (simp add: register_def)
  qed
qed

text \<open>
  Claim C6. A login attempt is a validated submission by a caller who is not logged in.
  If the email finds a user and \<open>check_password_hash\<close> accepts the submitted password
  for the stored hash, the login cookie holds that user's key afterwards and the reply
  redirects to the home page. If the email finds nobody, or the hash comparison fails,
  an error is flashed, the reply redirects to the login page, the cookie is untouched and
  the caller is still anonymous. The store never changes.
\<close>

theorem login_outcomes:
  assumes "current_user rq d = None"
  shows "(first_by_email d (login_email f) = Some user
            \<and> check_password_hash (user_password user) (login_password f) \<longrightarrow>
            login_after (login check_password_hash (Some f) rq d) = Some (user_id user)
          \<and> reply (login check_password_hash (Some f) rq d) = Redirect (url_for ''home''))
       \<and> (first_by_email d (login_email f) = None
            \<or> (\<exists>stored. first_by_email d (login_email f) = Some stored
                  \<and> \<not> check_password_hash (user_password stored) (login_password f)) \<longrightarrow>
            login_after (login check_password_hash (Some f) rq d) = session_uid rq
          \<and> current_user (rq\<lparr>session_uid := login_after (login check_password_hash (Some f) rq d)\<rparr>)
               (db_after (login check_password_hash (Some f) rq d)) = None
          \<and> (\<exists>msg. flashed (login check_password_hash (Some f) rq d) = [(msg, ''error'')])
          \<and> reply (login check_password_hash (Some f) rq d) = Redirect (url_for ''login''))
       \<and> db_after (login check_password_hash (Some f) rq d) = d"
  using assms
  by (auto simp: login_def Let_def current_user_def split: option.splits)

theorem login_outcomes_witness:
  "current_user anonymous shop = None
     \<and> first_by_email shop (login_email alice_login) = Some alice
     \<and> example_check_password_hash (user_password alice) (login_password alice_login)
     \<and> login_after (login example_check_password_hash (Some alice_login) anonymous shop) = Some 1
     \<and> \<not> example_check_password_hash (user_password alice) (login_password alice_typo)
     \<and> login_after (login example_check_password_hash (Some alice_typo) anonymous shop) = None
     \<and> first_by_email shop (login_email ghost_login) = None
     \<and> login_after (login example_check_password_hash (Some ghost_login) anonymous shop) = None"
proof -
  have f: "first_by_email shop (login_email alice_login) = Some alice"
    by (simp add: alice_login_def shop_first_alice)
  have f': "first_by_email shop (login_email alice_typo) = Some alice"
    by (simp add: alice_typo_def shop_first_alice)
  have g: "first_by_email shop (login_email ghost_login) = None"
    by (simp add: ghost_login_def shop_first_ghost)
  have c: "example_check_password_hash (user_password alice) (login_password alice_login)"
    by (simp add: example_check_password_hash_def alice_login_def alice_hash)
  have w: "\<not> example_check_password_hash (user_password alice) (login_password alice_typo)"
    by (simp add: example_check_password_hash_def alice_typo_def alice_hash [symmetric])
       (simp add: example_generate_password_hash_def)
  have i: "user_id alice = 1" "session_uid anonymous = None"
    by (simp_all add: alice_def anonymous_def)
  show ?thesis
    using f g c w
      login_outcomes [OF shop_anonymous, of shop alice_login alice example_check_password_hash]
      login_outcomes [OF shop_anonymous, of shop alice_typo alice example_check_password_hash]
      login_outcomes [OF shop_anonymous, of shop ghost_login alice example_check_password_hash]
    by (simp add: shop_anonymous f' i)
qed

section \<open>Email confirmation\<close>

lemma first_by_email_update:
  assumes "first_by_email d e = Some u" and "user_id u' = user_id u" and "user_email u' = e"
  shows "first_by_email (update_user u' d) e = Some u'"
proof -
  have "find (\<lambda>r. user_email r = e) (map (\<lambda>r. if user_id r = user_id u' then u' else r) xs) = Some u'"
    if "find (\<lambda>r. user_email r = e) xs = Some u" for xs
    using that assms(2,3)
    by (induction xs) (auto split: if_splits)
  with assms(1) show ?thesis
    by (simp add: first_by_email_def update_user_def)
qed

text \<open>
  Claim C7. A token that does not verify, or whose signature is more than 3600 seconds
  old (or younger than the clock allows), is rejected: the error is flashed and the store
  is unchanged. A valid token for an account that is already confirmed is accepted
  without any change of the store. A valid token for an unconfirmed account sets the flag
  of that account, which is then the account found by the email; and redeeming the same
  token again within the window changes nothing further and reports the account as
  already confirmed.
\<close>

theorem confirm_email_outcomes:
  "(unsign ''email-confirmation-salt'' token = None
      \<or> (\<exists>email signed_at. unsign ''email-confirmation-salt'' token = Some (email, signed_at)
            \<and> (now rq - signed_at > 3600 \<or> now rq - signed_at < 0)) \<longrightarrow>
      db_after (confirm_email unsign token rq d) = d
    \<and> flashed (confirm_email unsign token rq d) =
        [(''The confirmation link is invalid or has expired.'', ''error'')]
    \<and> reply (confirm_email unsign token rq d) = Redirect (url_for ''login''))
 \<and> (unsign ''email-confirmation-salt'' token = Some (email, signed_at)
      \<and> 0 \<le> now rq - signed_at \<and> now rq - signed_at \<le> 3600
      \<and> first_by_email d email = Some user \<and> user_email_confirmed user \<longrightarrow>
      db_after (confirm_email unsign token rq d) = d
    \<and> flashed (confirm_email unsign token rq d) =
        [(''Account already confirmed. Please login.'', ''success'')]
    \<and> reply (confirm_email unsign token rq d) = Redirect (url_for ''login''))
 \<and> (unsign ''email-confirmation-salt'' token = Some (email, signed_at)
      \<and> 0 \<le> now rq - signed_at \<and> now rq - signed_at \<le> 3600
      \<and> first_by_email d email = Some user \<and> \<not> user_email_confirmed user \<longrightarrow>
      db_after (confirm_email unsign token rq d) =
        update_user (user\<lparr>user_email_confirmed := True\<rparr>) d
    \<and> first_by_email (db_after (confirm_email unsign token rq d)) email =
        Some (user\<lparr>user_email_confirmed := True\<rparr>)
    \<and> flashed (confirm_email unsign token rq d) =
        [(''Email address successfully confirmed!'', ''success'')]
    \<and> reply (confirm_email unsign token rq d) = Redirect (url_for ''login'')
    \<and> (0 \<le> now rq' - signed_at \<and> now rq' - signed_at \<le> 3600 \<longrightarrow>
          db_after (confirm_email unsign token rq' (db_after (confirm_email unsign token rq d))) =
            db_after (confirm_email unsign token rq d)
        \<and> flashed (confirm_email unsign token rq' (db_after (confirm_email unsign token rq d))) =
            [(''Account already confirmed. Please login.'', ''success'')]))"
proof (intro conjI impI)
  assume "unsign ''email-confirmation-salt'' token = None
      \<or> (\<exists>email signed_at. unsign ''email-confirmation-salt'' token = Some (email, signed_at)
            \<and> (now rq - signed_at > 3600 \<or> now rq - signed_at < 0))"
  then have l: "\<exists>e. loads unsign (now rq) token ''email-confirmation-salt'' 3600 = Inl e"
    by (auto simp: loads_def Let_def)
  from l show "db_after (confirm_email unsign token rq d) = d"
    by (auto simp: confirm_email_def)
  from l show "flashed (confirm_email unsign token rq d) =
        [(''The confirmation link is invalid or has expired.'', ''error'')]"
    by (auto simp: confirm_email_def)
  from l show "reply (confirm_email unsign token rq d) = Redirect (url_for ''login'')"
    by (auto simp: confirm_email_def)
next
  assume a: "unsign ''email-confirmation-salt'' token = Some (email, signed_at)
      \<and> 0 \<le> now rq - signed_at \<and> now rq - signed_at \<le> 3600
      \<and> first_by_email d email = Some user \<and> user_email_confirmed user"
  then have r: "confirm_email unsign token rq d =
      \<lparr>db_after = d, login_after = session_uid rq,
       flashed = [(''Account already confirmed. Please login.'', ''success'')],
       reply = Redirect (url_for ''login'')\<rparr>"
    by (simp add: confirm_email_def loads_def Let_def)
  show "db_after (confirm_email unsign token rq d) = d" by (simp add: r)
  show "flashed (confirm_email unsign token rq d) =
        [(''Account already confirmed. Please login.'', ''success'')]" by (simp add: r)
  show "reply (confirm_email unsign token rq d) = Redirect (url_for ''login'')" by (simp add: r)
next
  assume a: "unsign ''email-confirmation-salt'' token = Some (email, signed_at)
      \<and> 0 \<le> now rq - signed_at \<and> now rq - signed_at \<le> 3600
      \<and> first_by_email d email = Some user \<and> \<not> user_email_confirmed user"
  let ?u = "user\<lparr>user_email_confirmed := True\<rparr>"
  from a have r: "confirm_email unsign token rq d =
      \<lparr>db_after = update_user ?u d, login_after = session_uid rq,
       flashed = [(''Email address successfully confirmed!'', ''success'')],
       reply = Redirect (url_for ''login'')\<rparr>"
    by (simp add: confirm_email_def loads_def Let_def)
  from a have e: "user_email user = email"
    by (auto simp: first_by_email_def find_Some_iff)
  from a have f: "first_by_email (update_user ?u d) email = Some ?u"
    by (intro first_by_email_update [where u = user]) (simp_all add: e)
  show "db_after (confirm_email unsign token rq d) = update_user ?u d" by (simp add: r)
  show "first_by_email (db_after (confirm_email unsign token rq d)) email = Some ?u"
    by (simp add: r f)
  show "flashed (confirm_email unsign token rq d) =
        [(''Email address successfully confirmed!'', ''success'')]" by (simp add: r)
  show "reply (confirm_email unsign token rq d) = Redirect (url_for ''login'')" by (simp add: r)
  assume w: "0 \<le> now rq' - signed_at \<and> now rq' - signed_at \<le> 3600"
  from a w f have r2: "confirm_email unsign token rq' (update_user ?u d) =
      \<lparr>db_after = update_user ?u d, login_after = session_uid rq',
       flashed = [(''Account already confirmed. Please login.'', ''success'')],
       reply = Redirect (url_for ''login'')\<rparr>"
    by (simp add: confirm_email_def loads_def Let_def)
  show "db_after (confirm_email unsign token rq' (db_after (confirm_email unsign token rq d))) =
            db_after (confirm_email unsign token rq d)"
    by (simp add: r r2)
  show "flashed (confirm_email unsign token rq' (db_after (confirm_email unsign token rq d))) =
            [(''Account already confirmed. Please login.'', ''success'')]"
    by (simp add: r r2)
qed

theorem confirm_email_outcomes_witness:
  "example_unsign ''email-confirmation-salt'' ''garbage'' = None
     \<and> db_after (confirm_email example_unsign ''garbage'' anonymous shop) = shop
     \<and> example_unsign ''email-confirmation-salt'' ''token-alice'' = Some (''alice@example.com'', 900)
     \<and> now late - 900 > 3600
     \<and> db_after (confirm_email example_unsign ''token-alice'' late shop) = shop
     \<and> now early - 900 < 0
     \<and> db_after (confirm_email example_unsign ''token-alice'' early shop) = shop
     \<and> 0 \<le> now anonymous - 900 \<and> now anonymous - 900 \<le> 3600
     \<and> first_by_email shop ''alice@example.com'' = Some alice
     \<and> \<not> user_email_confirmed alice
     \<and> users (db_after (confirm_email example_unsign ''token-alice'' anonymous shop)) =
         [alice\<lparr>user_email_confirmed := True\<rparr>]
     \<and> db_after (confirm_email example_unsign ''token-alice'' anonymous
                   (db_after (confirm_email example_unsign ''token-alice'' anonymous shop))) =
         db_after (confirm_email example_unsign ''token-alice'' anonymous shop)"
proof -
  have g: "example_unsign ''email-confirmation-salt'' ''garbage'' = None"
    by (simp add: example_unsign_def)
  have t: "example_unsign ''email-confirmation-salt'' ''token-alice'' = Some (''alice@example.com'', 900)"
    by (simp add: example_unsign_def)
  have l: "now late - 900 > 3600" and y: "now early - 900 < 0"
    and e: "0 \<le> now anonymous - 900 \<and> now anonymous - 900 \<le> 3600"
    by (simp_all add: late_def early_def anonymous_def)
  have u: "\<not> user_email_confirmed alice"
    by (simp add: alice_def)
  have m: "users (update_user (alice\<lparr>user_email_confirmed := True\<rparr>) shop) =
             [alice\<lparr>user_email_confirmed := True\<rparr>]"
    by (simp add: update_user_def shop_users)
  note A = confirm_email_outcomes [where unsign = example_unsign and d = shop
      and token = "''garbage''" and rq = anonymous, THEN conjunct1]
  note B = confirm_email_outcomes [where unsign = example_unsign and d = shop
      and token = "''token-alice''" and rq = late, THEN conjunct1]
  note B' = confirm_email_outcomes [where unsign = example_unsign and d = shop
      and token = "''token-alice''" and rq = early, THEN conjunct1]
  note C = confirm_email_outcomes [where unsign = example_unsign and d = shop
      and token = "''token-alice''" and rq = anonymous and rq' = anonymous
      and email = "''alice@example.com''" and signed_at = 900 and user = alice,
      THEN conjunct2, THEN conjunct2]
  have h: "example_unsign ''email-confirmation-salt'' ''token-alice'' = Some (''alice@example.com'', 900)
      \<and> 0 \<le> now anonymous - 900 \<and> now anonymous - 900 \<le> 3600
      \<and> first_by_email shop ''alice@example.com'' = Some alice
      \<and> \<not> user_email_confirmed alice"
    using t e u shop_first_alice by simp
  note C' = C [THEN mp, OF h]
  note first = C' [THEN conjunct1]
  note again = C' [THEN conjunct2, THEN conjunct2, THEN conjunct2, THEN conjunct2, THEN mp, OF e,
      THEN conjunct1]
  have rejected: "db_after (confirm_email example_unsign ''garbage'' anonymous shop) = shop"
    "db_after (confirm_email example_unsign ''token-alice'' late shop) = shop"
    "db_after (confirm_email example_unsign ''token-alice'' early shop) = shop"
    using g t l y A B B' by simp_all
  show ?thesis
    using g t l y e u shop_first_alice rejected first again
    by (simp add: m)
qed

text \<open>
  Claim C10. For a token that verifies within the window but whose email belongs to no
  user, \<open>confirm_email\<close> reads \<open>email_confirmed\<close> of \<open>None\<close>: the request ends in an
  unhandled \<open>AttributeError\<close>, nothing is flashed and the store is unchanged.
\<close>

theorem confirm_email_unknown_user_raises:
  assumes "unsign ''email-confirmation-salt'' token = Some (email, signed_at)"
    and "0 \<le> now rq - signed_at" and "now rq - signed_at \<le> 3600"
    and "first_by_email d email = None"
  shows "reply (confirm_email unsign token rq d) = Unhandled AttributeError
       \<and> flashed (confirm_email unsign token rq d) = []
       \<and> db_after (confirm_email unsign token rq d) = d"
  using assms by (simp add: confirm_email_def loads_def Let_def)

theorem confirm_email_unknown_user_raises_witness:
  "example_unsign ''email-confirmation-salt'' ''token-ghost'' = Some (''ghost@example.com'', 900)
     \<and> 0 \<le> now anonymous - 900 \<and> now anonymous - 900 \<le> 3600
     \<and> first_by_email shop ''ghost@example.com'' = None
     \<and> reply (confirm_email example_unsign ''token-ghost'' anonymous shop) = Unhandled AttributeError
     \<and> db_after (confirm_email example_unsign ''token-ghost'' anonymous shop) = shop"
proof -
  have t: "example_unsign ''email-confirmation-salt'' ''token-ghost'' = Some (''ghost@example.com'', 900)"
    by (simp add: example_unsign_def)
  have a: "0 \<le> now anonymous - 900" and b: "now anonymous - 900 \<le> 3600"
    by (simp_all add: anonymous_def)
  show ?thesis
    using t a b shop_first_ghost
      confirm_email_unknown_user_raises [where unsign = example_unsign
        and token = "''token-ghost''" and email = "''ghost@example.com''" and signed_at = 900
        and rq = anonymous and d = shop]
    by simp
qed

section \<open>Search\<close>












end
